theory Spec2Isabelle
  imports
    Main
    "HOL-Library.AList"
    "HOL-Library.Multiset"
    "HOL-Library.Char_ord"
    "HOL-Library.List_Lexorder"
    "HOL-Library.Option_ord"
begin

section \<open>Announcements endpoints (src/backend/routers/announcements.py)\<close>

text \<open>
  The router has five endpoints. Each one looks a username up in the teachers collection
  (except the public listing), validates its inputs and issues calls to the announcements
  collection of a MongoDB database. The embedding keeps that shape: a writing endpoint is
  a function of the database and of the request parameters, and returns the response (an
  exception or the returned value) together with the database after the request; a listing
  endpoint is a relation between the database and the responses it may return.
\<close>

subsection \<open>Documents and collections\<close>

text \<open>
  A stored document always carries an \<open>_id\<close>; the other fields of the documents handled here
  are strings, and a field may be absent. The fields are kept as an association list, in
  the order of the Python dict (and of the BSON document). The type of \<open>_id\<close> is a parameter:
  the teachers collection is keyed by the username, the announcements collection by an
  ObjectId, and a document sent back to the client has its \<open>_id\<close> rendered as a string.
\<close>

record 'i document =
  doc_id :: 'i
  doc_fields :: "(string \<times> string) list"

definition get :: "'i document \<Rightarrow> string \<Rightarrow> string option" where
  "get d k = map_of (doc_fields d) k"

record 'oid database =
  teachers_collection :: "string document list"
  announcements_collection :: "'oid document list"

subsection \<open>Queries and updates of the store\<close>

text \<open>
  The filter documents the router builds: \<open>{}\<close>, \<open>{"_id": v}\<close>, \<open>{"$and": [...]}\<close>,
  \<open>{"$or": [...]}\<close>, \<open>{f: {"$exists": b}}\<close>, \<open>{f: {"$gte": s}}\<close> and \<open>{f: {"$lte": s}}\<close> with a
  string operand. A comparison operator with a string operand matches only a document that
  has the field; strings are compared byte by byte, a proper prefix being smaller.
\<close>

datatype 'i query =
    Q_all
  | Q_id 'i
  | Q_and "'i query list"
  | Q_or "'i query list"
  | Q_exists string bool
  | Q_gte string string
  | Q_lte string string

fun matches :: "'i query \<Rightarrow> 'i document \<Rightarrow> bool" where
  "matches Q_all d = True"
| "matches (Q_id i) d = (doc_id d = i)"
| "matches (Q_and qs) d = (\<forall>q \<in> set qs. matches q d)"
| "matches (Q_or qs) d = (\<exists>q \<in> set qs. matches q d)"
| "matches (Q_exists f b) d = ((get d f \<noteq> None) = b)"
| "matches (Q_gte f s) d = (case get d f of None \<Rightarrow> False | Some x \<Rightarrow> s \<le> x)"
| "matches (Q_lte f s) d = (case get d f of None \<Rightarrow> False | Some x \<Rightarrow> x \<le> s)"

definition find :: "'i document list \<Rightarrow> 'i query \<Rightarrow> 'i document list" where
  "find coll q = filter (matches q) coll"

fun find_one :: "'i document list \<Rightarrow> 'i query \<Rightarrow> 'i document option" where
  "find_one [] q = None"
| "find_one (d # coll) q = (if matches q d then Some d else find_one coll q)"

text \<open>
  \<open>cursor.sort(f, -1)\<close>: the store returns the documents of the cursor ordered by field
  \<open>f\<close>, largest first, a document without the field after all the others. The store fixes
  no order among documents with the same value, so the sort is a relation between the
  documents found and a sequence the cursor may yield.
\<close>

definition sort_descending :: "string \<Rightarrow> 'i document list \<Rightarrow> 'i document list \<Rightarrow> bool" where
  "sort_descending f found out \<longleftrightarrow>
     mset out = mset found \<and> sorted_wrt (\<lambda>a b. get b f \<le> get a f) out"

definition insert_one :: "'i document list \<Rightarrow> 'i \<Rightarrow> (string \<times> string) list \<Rightarrow> 'i document list" where
  "insert_one coll new_id doc = coll @ [\<lparr>doc_id = new_id, doc_fields = doc\<rparr>]"

datatype update = Set "(string \<times> string) list" | Unset string

fun apply_update :: "update \<Rightarrow> 'i document \<Rightarrow> 'i document" where
  "apply_update (Set kvs) d = d\<lparr>doc_fields := fold (\<lambda>(k, v). AList.update k v) kvs (doc_fields d)\<rparr>"
| "apply_update (Unset k) d = d\<lparr>doc_fields := AList.delete k (doc_fields d)\<rparr>"

fun update_one :: "'i document list \<Rightarrow> 'i query \<Rightarrow> update \<Rightarrow> 'i document list" where
  "update_one [] q u = []"
| "update_one (d # coll) q u =
     (if matches q d then apply_update u d # coll else d # update_one coll q u)"

text \<open>\<open>delete_one\<close> returns the collection and \<open>deleted_count\<close>.\<close>

fun delete_one :: "'i document list \<Rightarrow> 'i query \<Rightarrow> 'i document list \<times> nat" where
  "delete_one [] q = ([], 0)"
| "delete_one (d # coll) q =
     (if matches q d then (coll, 1)
      else (case delete_one coll q of (coll', n) \<Rightarrow> (d # coll', n)))"

subsection \<open>Library values: datetimes, ObjectIds, exceptions\<close>

text \<open>
  A \<open>datetime\<close> is its wall-clock reading in microseconds since 0001-01-01T00:00:00 and
  its \<open>tzinfo\<close>: \<open>None\<close> for a naive datetime, the UTC offset in microseconds for an aware
  one. \<open>datetime.utcnow()\<close> returns a naive datetime.
\<close>

record datetime =
  timestamp :: int
  tzinfo :: "int option"

definition utcnow :: "int \<Rightarrow> datetime" where
  "utcnow clock = \<lparr>timestamp = clock, tzinfo = None\<rparr>"

datatype error = HTTPException nat string | TypeError

text \<open>
  \<open>a <= b\<close> on datetimes: two naive datetimes compare by their readings, two aware ones by
  their UTC instants, and Python raises TypeError for a naive and an aware one.
\<close>

definition datetime_le :: "datetime \<Rightarrow> datetime \<Rightarrow> error + bool" where
  "datetime_le a b =
     (case (tzinfo a, tzinfo b) of
        (None, None) \<Rightarrow> Inr (timestamp a \<le> timestamp b)
      | (Some oa, Some ob) \<Rightarrow> Inr (timestamp a - oa \<le> timestamp b - ob)
      | _ \<Rightarrow> Inl TypeError)"

text \<open>
  The functions of the standard library and of \<open>bson\<close> that the router calls are parameters
  of the model: \<open>ObjectId(s)\<close> (\<open>None\<close> when it raises \<open>InvalidId\<close>), \<open>str(oid)\<close>,
  \<open>datetime.fromisoformat(s)\<close> (\<open>None\<close> when it raises \<open>ValueError\<close>) and
  \<open>datetime.isoformat()\<close>.
\<close>

record 'oid library =
  ObjectId :: "string \<Rightarrow> 'oid option"
  str :: "'oid \<Rightarrow> string"
  fromisoformat :: "string \<Rightarrow> datetime option"
  isoformat :: "datetime \<Rightarrow> string"

text \<open>\<open>s.replace("Z", "+00:00")\<close> replaces every \<open>Z\<close> of the string.\<close>

definition replace_Z :: "string \<Rightarrow> string" where
  "replace_Z s = concat (map (\<lambda>c. if c = CHR ''Z'' then ''+00:00'' else [c]) s)"

text \<open>The error taxonomy of the specification, as the responses the router raises.\<close>

definition Unauthorized :: error where
  "Unauthorized = HTTPException 401 ''Unauthorized''"

definition InvalidId :: error where
  "InvalidId = HTTPException 400 ''Invalid announcement ID''"

definition NotFound :: error where
  "NotFound = HTTPException 404 ''Announcement not found''"

definition ValidationError :: error where
  "ValidationError = HTTPException 400 ''Expiration date must be in the future''"

definition InvalidFormat_expiration :: error where
  "InvalidFormat_expiration = HTTPException 400 ''Invalid expiration date format''"

definition InvalidFormat_start :: error where
  "InvalidFormat_start = HTTPException 400 ''Invalid start date format''"

definition taxonomy :: "error set" where
  "taxonomy = {Unauthorized, InvalidId, NotFound, ValidationError,
     InvalidFormat_expiration, InvalidFormat_start}"

subsection \<open>The endpoints\<close>

text \<open>
  \<open>if start_date:\<close> holds for a string that is not empty, and fails for \<open>None\<close> and for
  the empty string; \<open>provided\<close> gives the string in the first case.
\<close>

fun provided :: "string option \<Rightarrow> string option" where
  "provided None = None"
| "provided (Some s) = (if s = [] then None else Some s)"

text \<open>\<open>announcement["_id"] = str(announcement["_id"])\<close>\<close>

definition id_to_str :: "'oid library \<Rightarrow> 'oid document \<Rightarrow> string document" where
  "id_to_str L d = \<lparr>doc_id = str L (doc_id d), doc_fields = doc_fields d\<rparr>"

definition current_time :: "'oid library \<Rightarrow> int \<Rightarrow> string" where
  "current_time L clock = isoformat L (utcnow clock) @ ''Z''"

definition active_query :: "string \<Rightarrow> 'i query" where
  "active_query now =
     Q_and [Q_gte ''expiration_date'' now,
            Q_or [Q_exists ''start_date'' False, Q_lte ''start_date'' now]]"

text \<open>
  \<open>GET /announcements/active\<close>. \<open>clock\<close> is the reading of \<open>datetime.utcnow()\<close>; the
  endpoint returns any sequence the sorted cursor may yield, with the ids rendered.
\<close>

inductive get_active_announcements ::
  "'oid library \<Rightarrow> int \<Rightarrow> 'oid database \<Rightarrow> string document list \<Rightarrow> bool" where
  active_found:
    "sort_descending ''created_at''
        (find (announcements_collection db) (active_query (current_time L clock))) announcements
     \<Longrightarrow> get_active_announcements L clock db (map (id_to_str L) announcements)"

text \<open>\<open>GET /announcements/all\<close>\<close>

inductive get_all_announcements ::
  "'oid library \<Rightarrow> 'oid database \<Rightarrow> string \<Rightarrow> error + string document list \<Rightarrow> bool" where
  all_unauthorized:
    "find_one (teachers_collection db) (Q_id username) = None
     \<Longrightarrow> get_all_announcements L db username (Inl (HTTPException 401 ''Unauthorized''))"
| all_found:
    "find_one (teachers_collection db) (Q_id username) = Some teacher
     \<Longrightarrow> sort_descending ''created_at'' (find (announcements_collection db) Q_all) announcements
     \<Longrightarrow> get_all_announcements L db username (Inr (map (id_to_str L) announcements))"

text \<open>
  \<open>POST /announcements/\<close>. \<open>clock\<close> and \<open>clock'\<close> are the two readings of
  \<open>datetime.utcnow()\<close> (the future check and \<open>created_at\<close>), \<open>new_id\<close> is the ObjectId the
  driver generates for the inserted document.
\<close>

definition create_announcement ::
  "'oid library \<Rightarrow> int \<Rightarrow> int \<Rightarrow> 'oid \<Rightarrow> 'oid database \<Rightarrow>
   string \<Rightarrow> string \<Rightarrow> string \<Rightarrow> string option \<Rightarrow> (error + string document) \<times> 'oid database" where
  "create_announcement L clock clock' new_id db message expiration_date username start_date =
    (case find_one (teachers_collection db) (Q_id username) of
       None \<Rightarrow> (Inl (HTTPException 401 ''Unauthorized''), db)
     | Some teacher \<Rightarrow>
    (case fromisoformat L (replace_Z expiration_date) of
       None \<Rightarrow> (Inl (HTTPException 400 ''Invalid expiration date format''), db)
     | Some expiration_dt \<Rightarrow>
    (case datetime_le expiration_dt (utcnow clock) of
       Inl e \<Rightarrow> (Inl e, db)
     | Inr True \<Rightarrow> (Inl (HTTPException 400 ''Expiration date must be in the future''), db)
     | Inr False \<Rightarrow>
    (if (case provided start_date of
           None \<Rightarrow> False
         | Some s \<Rightarrow> fromisoformat L (replace_Z s) = None)
     then (Inl (HTTPException 400 ''Invalid start date format''), db)
     else
       let announcement =
             [(''message'', message),
              (''expiration_date'', expiration_date),
              (''created_by'', username),
              (''created_at'', isoformat L (utcnow clock') @ ''Z'')];
           announcement =
             (case provided start_date of
                None \<Rightarrow> announcement
              | Some s \<Rightarrow> AList.update ''start_date'' s announcement)
       in (Inr \<lparr>doc_id = str L new_id, doc_fields = announcement\<rparr>,
           db\<lparr>announcements_collection :=
                insert_one (announcements_collection db) new_id announcement\<rparr>)))))"

text \<open>
  \<open>PUT /announcements/{announcement_id}\<close>. When \<open>start_date\<close> is not given the endpoint
  issues an \<open>$unset\<close> before the \<open>$set\<close>. The last branch is \<open>updated["_id"]\<close> on the \<open>None\<close>
  that \<open>find_one\<close> returns for a missing record.
\<close>

definition update_announcement ::
  "'oid library \<Rightarrow> int \<Rightarrow> 'oid database \<Rightarrow>
   string \<Rightarrow> string \<Rightarrow> string \<Rightarrow> string \<Rightarrow> string option \<Rightarrow>
   (error + string document) \<times> 'oid database" where
  "update_announcement L clock db announcement_id message expiration_date username start_date =
    (case find_one (teachers_collection db) (Q_id username) of
       None \<Rightarrow> (Inl (HTTPException 401 ''Unauthorized''), db)
     | Some teacher \<Rightarrow>
    (case ObjectId L announcement_id of
       None \<Rightarrow> (Inl (HTTPException 400 ''Invalid announcement ID''), db)
     | Some obj_id \<Rightarrow>
    (case find_one (announcements_collection db) (Q_id obj_id) of
       None \<Rightarrow> (Inl (HTTPException 404 ''Announcement not found''), db)
     | Some existing \<Rightarrow>
    (case fromisoformat L (replace_Z expiration_date) of
       None \<Rightarrow> (Inl (HTTPException 400 ''Invalid expiration date format''), db)
     | Some expiration_dt \<Rightarrow>
    (case datetime_le expiration_dt (utcnow clock) of
       Inl e \<Rightarrow> (Inl e, db)
     | Inr True \<Rightarrow> (Inl (HTTPException 400 ''Expiration date must be in the future''), db)
     | Inr False \<Rightarrow>
    (if (case provided start_date of
           None \<Rightarrow> False
         | Some s \<Rightarrow> fromisoformat L (replace_Z s) = None)
     then (Inl (HTTPException 400 ''Invalid start date format''), db)
     else
       let update_data = [(''message'', message), (''expiration_date'', expiration_date)];
           (update_data, coll) =
             (case provided start_date of
                Some s \<Rightarrow>
                  (AList.update ''start_date'' s update_data, announcements_collection db)
              | None \<Rightarrow>
                  (update_data,
                   update_one (announcements_collection db) (Q_id obj_id)
                     (Unset ''start_date'')));
           coll = update_one coll (Q_id obj_id) (Set update_data);
           db' = db\<lparr>announcements_collection := coll\<rparr>
       in (case find_one coll (Q_id obj_id) of
             None \<Rightarrow> (Inl TypeError, db')
           | Some updated \<Rightarrow> (Inr (id_to_str L updated), db'))))))))"

text \<open>\<open>DELETE /announcements/{announcement_id}\<close>\<close>

definition delete_announcement ::
  "'oid library \<Rightarrow> 'oid database \<Rightarrow> string \<Rightarrow> string \<Rightarrow>
   (error + (string \<times> string) list) \<times> 'oid database" where
  "delete_announcement L db announcement_id username =
    (case find_one (teachers_collection db) (Q_id username) of
       None \<Rightarrow> (Inl (HTTPException 401 ''Unauthorized''), db)
     | Some teacher \<Rightarrow>
    (case ObjectId L announcement_id of
       None \<Rightarrow> (Inl (HTTPException 400 ''Invalid announcement ID''), db)
     | Some obj_id \<Rightarrow>
    (case delete_one (announcements_collection db) (Q_id obj_id) of
       (coll, deleted_count) \<Rightarrow>
         let db' = db\<lparr>announcements_collection := coll\<rparr>
         in if deleted_count = 0
            then (Inl (HTTPException 404 ''Announcement not found''), db')
            else (Inr [(''message'', ''Announcement deleted successfully'')], db'))))"

subsection \<open>A concrete library and database\<close>

text \<open>
  The instance of the library used by the examples: it answers as CPython and \<open>bson\<close> do
  on the strings and datetimes the examples pass to it (an ObjectId is represented by its
  24 hexadecimal digits). The clock of the examples reads 2025-01-01T00:00:00, that is
  63871286400000000 microseconds.
\<close>

definition example_library :: "string library" where
  "example_library =
     \<lparr>ObjectId = (\<lambda>s. if length s = 24 \<and> (\<forall>c \<in> set s. c \<in> set ''0123456789abcdef'')
                      then Some s else None),
      str = (\<lambda>oid. oid),
      fromisoformat = (\<lambda>s.
        if s = ''2025-01-01T00:00:00'' then Some \<lparr>timestamp = 63871286400000000, tzinfo = None\<rparr>
        else if s = ''2025-01-01T00:00:01'' then Some \<lparr>timestamp = 63871286401000000, tzinfo = None\<rparr>
        else if s = ''2030-01-01T00:00:00'' then Some \<lparr>timestamp = 64029052800000000, tzinfo = None\<rparr>
        else if s = ''2030-01-01T00:00:00+00:00''
          then Some \<lparr>timestamp = 64029052800000000, tzinfo = Some 0\<rparr>
        else None),
      isoformat = (\<lambda>dt.
        if dt = \<lparr>timestamp = 63871286400000000, tzinfo = None\<rparr> then ''2025-01-01T00:00:00''
        else if dt = \<lparr>timestamp = 63871286400000001, tzinfo = None\<rparr>
          then ''2025-01-01T00:00:00.000001''
        else [])\<rparr>"

definition science_fair :: "string document" where
  "science_fair =
     \<lparr>doc_id = ''64b7f0c2a1d3e4f5a6b7c8d9'',
      doc_fields =
        [(''message'', ''Science fair on Friday''),
         (''expiration_date'', ''2030-01-01T00:00:00''),
         (''created_by'', ''mrodriguez''),
         (''created_at'', ''2024-12-01T08:00:00.514213Z''),
         (''start_date'', ''2024-12-15T00:00:00'')]\<rparr>"

definition summer_break :: "string document" where
  "summer_break =
     \<lparr>doc_id = ''64b7f0c2a1d3e4f5a6b7c8da'',
      doc_fields =
        [(''message'', ''Summer break starts''),
         (''expiration_date'', ''2024-06-30T00:00:00''),
         (''created_by'', ''mrodriguez''),
         (''created_at'', ''2024-06-01T08:00:00.271828Z'')]\<rparr>"

definition example_db :: "string database" where
  "example_db =
     \<lparr>teachers_collection =
        [\<lparr>doc_id = ''mrodriguez'', doc_fields = [(''display_name'', ''Ms. Rodriguez'')]\<rparr>],
      announcements_collection = [summer_break, science_fair]\<rparr>"

section \<open>Properties\<close>

subsection \<open>The store\<close>

lemma find_one_None_iff: "find_one coll q = None \<longleftrightarrow> (\<forall>d \<in> set coll. \<not> matches q d)"
  by (induction coll) auto

lemma find_one_SomeD: "find_one coll q = Some d \<Longrightarrow> d \<in> set coll \<and> matches q d"
  by (induction coll) (auto split: if_splits)

lemma find_one_id_None: "find_one coll (Q_id i) = None \<longleftrightarrow> i \<notin> doc_id ` set coll"
  by (auto simp: find_one_None_iff)

lemma find_one_id_Some: "i \<in> doc_id ` set coll \<Longrightarrow> \<exists>d. find_one coll (Q_id i) = Some d"
  using find_one_id_None [of coll i] by (cases "find_one coll (Q_id i)") auto

lemma doc_id_apply_update: "doc_id (apply_update u d) = doc_id d"
  by (cases u) auto

lemma delete_one_missing: "find_one coll q = None \<Longrightarrow> delete_one coll q = (coll, 0)"
  by (induction coll) (auto split: if_splits)

lemma delete_one_present: "find_one coll q = Some d \<Longrightarrow> delete_one coll q = (remove1 d coll, 1)"
  by (induction coll) (auto split: if_splits dest: find_one_SomeD)

lemma sort_descending_exists: "\<exists>out. sort_descending f found out"
proof -
  let ?out = "rev (sort_key (\<lambda>d. get d f) found)"
  have "sorted (map (\<lambda>d. get d f) (sort_key (\<lambda>d. get d f) found))"
    by (rule sorted_sort_key)
  then have "sorted_wrt (\<lambda>a b. get a f \<le> get b f) (sort_key (\<lambda>d. get d f) found)"
    by (simp add: sorted_map)
  then have "sorted_wrt (\<lambda>a b. get b f \<le> get a f) ?out"
    by (simp add: sorted_wrt_rev)
  moreover have "mset ?out = mset found" by simp
  ultimately show ?thesis unfolding sort_descending_def by blast
qed

lemma sort_descending_set: "sort_descending f found out \<Longrightarrow> set out = set found"
  unfolding sort_descending_def by (metis set_mset_mset)

subsection \<open>Listing\<close>


lemma get_id_to_str: "get (id_to_str L d) k = get d k"
  by (simp add: get_def id_to_str_def)

lemma get_active_announcements_returns: "\<exists>out. get_active_announcements L clock db out"
  using sort_descending_exists active_found by metis

lemma get_all_announcements_returns: "\<exists>res. get_all_announcements L db username res"
proof (cases "find_one (teachers_collection db) (Q_id username)")
  case None
  then show ?thesis using all_unauthorized by blast
next
  case (Some teacher)
  then show ?thesis using sort_descending_exists all_found by metis
qed

lemma example_active:
  "get_active_announcements example_library 63871286400000000 example_db [science_fair]"
proof -
  have "sort_descending ''created_at''
      (find (announcements_collection example_db)
        (active_query (current_time example_library 63871286400000000))) [science_fair]"
    by (simp add: sort_descending_def find_def active_query_def current_time_def
        example_db_def example_library_def utcnow_def science_fair_def summer_break_def get_def)
  from active_found [OF this]
  show ?thesis by (simp add: id_to_str_def example_library_def science_fair_def)
qed



subsection \<open>Identity check\<close>

text \<open>
  C5. With a username that is not the \<open>_id\<close> of a document of the teachers collection,
  list-all, create, update and delete fail with Unauthorized (401), whatever the other
  inputs are, and leave the database as it was.
\<close>

theorem unauthorized_without_teacher:
  assumes "username \<notin> doc_id ` set (teachers_collection db)"
  shows "(get_all_announcements L db username res \<longleftrightarrow> res = Inl Unauthorized) \<and>
    create_announcement L clock clock' new_id db message expiration_date username start_date
      = (Inl Unauthorized, db) \<and>
    update_announcement L clock db announcement_id message expiration_date username start_date
      = (Inl Unauthorized, db) \<and>
    delete_announcement L db announcement_id username = (Inl Unauthorized, db)"
proof -
  from assms have none: "find_one (teachers_collection db) (Q_id username) = None"
    by (simp add: find_one_id_None)
  have "get_all_announcements L db username res \<longleftrightarrow> res = Inl Unauthorized"
    using none by (auto simp: Unauthorized_def intro: all_unauthorized
        elim: get_all_announcements.cases)
  moreover have "create_announcement L clock clock' new_id db message expiration_date
      username start_date = (Inl Unauthorized, db)"
    using none by (simp add: create_announcement_def Unauthorized_def)
  moreover have "update_announcement L clock db announcement_id message expiration_date
      username start_date = (Inl Unauthorized, db)"
    using none by (simp add: update_announcement_def Unauthorized_def)
  moreover have "delete_announcement L db announcement_id username = (Inl Unauthorized, db)"
    using none by (simp add: delete_announcement_def Unauthorized_def)
  ultimately show ?thesis by simp
qed

theorem unauthorized_without_teacher_witness:
  "''intruder'' \<notin> doc_id ` set (teachers_collection example_db) \<and>
   get_all_announcements example_library example_db ''intruder'' (Inl Unauthorized) \<and>
   create_announcement example_library 63871286400000000 63871286400000001
       ''64b7f0c2a1d3e4f5a6b7c8db'' example_db ''Hello'' ''2030-01-01T00:00:00'' ''intruder'' None
     = (Inl Unauthorized, example_db) \<and>
   update_announcement example_library 63871286400000000 example_db
       ''64b7f0c2a1d3e4f5a6b7c8d9'' ''Hello'' ''2030-01-01T00:00:00'' ''intruder'' None
     = (Inl Unauthorized, example_db) \<and>
   delete_announcement example_library example_db ''64b7f0c2a1d3e4f5a6b7c8d9'' ''intruder''
     = (Inl Unauthorized, example_db)"
proof -
  have absent: "''intruder'' \<notin> doc_id ` set (teachers_collection example_db)"
    by (simp add: example_db_def)
  show ?thesis
    using absent unauthorized_without_teacher [OF absent] by simp
qed

subsection \<open>Delete\<close>

lemma delete_announcement_cases:
  assumes "find_one (teachers_collection db) (Q_id username) = Some teacher"
  shows "delete_announcement L db announcement_id username =
    (case ObjectId L announcement_id of
       None \<Rightarrow> (Inl InvalidId, db)
     | Some obj_id \<Rightarrow>
        (case find_one (announcements_collection db) (Q_id obj_id) of
           None \<Rightarrow> (Inl NotFound, db)
         | Some d \<Rightarrow> (Inr [(''message'', ''Announcement deleted successfully'')],
              db\<lparr>announcements_collection := remove1 d (announcements_collection db)\<rparr>)))"
  using assms
  by (simp add: delete_announcement_def InvalidId_def NotFound_def delete_one_missing
      delete_one_present split: option.splits)

text \<open>
  C7. Delete by a username of the teachers collection: an id that \<open>ObjectId\<close> rejects gives
  InvalidId; a well-formed id for which \<open>delete_one\<close> reports \<open>deleted_count = 0\<close> gives
  NotFound; otherwise a stored record with that id is removed from the collection and the
  confirmation message is returned.
\<close>

theorem delete_announcement_outcomes:
  assumes "username \<in> doc_id ` set (teachers_collection db)"
  shows "(ObjectId L announcement_id = None \<longrightarrow>
            delete_announcement L db announcement_id username = (Inl InvalidId, db)) \<and>
         (\<forall>obj_id. ObjectId L announcement_id = Some obj_id \<longrightarrow>
            (snd (delete_one (announcements_collection db) (Q_id obj_id)) = 0 \<longrightarrow>
               delete_announcement L db announcement_id username = (Inl NotFound, db)) \<and>
            (snd (delete_one (announcements_collection db) (Q_id obj_id)) \<noteq> 0 \<longrightarrow>
               (\<exists>d \<in> set (announcements_collection db). doc_id d = obj_id \<and>
                  delete_announcement L db announcement_id username =
                    (Inr [(''message'', ''Announcement deleted successfully'')],
                     db\<lparr>announcements_collection :=
                          remove1 d (announcements_collection db)\<rparr>))))"
proof (rule conjI)
  from find_one_id_Some [OF assms] obtain teacher where
    t: "find_one (teachers_collection db) (Q_id username) = Some teacher"
    by (elim exE)
  note del = delete_announcement_cases [OF t, of L announcement_id]
  show "ObjectId L announcement_id = None \<longrightarrow>
      delete_announcement L db announcement_id username = (Inl InvalidId, db)"
    using del by simp
  show "\<forall>obj_id. ObjectId L announcement_id = Some obj_id \<longrightarrow>
            (snd (delete_one (announcements_collection db) (Q_id obj_id)) = 0 \<longrightarrow>
               delete_announcement L db announcement_id username = (Inl NotFound, db)) \<and>
            (snd (delete_one (announcements_collection db) (Q_id obj_id)) \<noteq> 0 \<longrightarrow>
               (\<exists>d \<in> set (announcements_collection db). doc_id d = obj_id \<and>
                  delete_announcement L db announcement_id username =
                    (Inr [(''message'', ''Announcement deleted successfully'')],
                     db\<lparr>announcements_collection :=
                          remove1 d (announcements_collection db)\<rparr>)))"
  proof (intro allI impI)
    fix obj_id
    assume oid: "ObjectId L announcement_id = Some obj_id"
    show "(snd (delete_one (announcements_collection db) (Q_id obj_id)) = 0 \<longrightarrow>
               delete_announcement L db announcement_id username = (Inl NotFound, db)) \<and>
            (snd (delete_one (announcements_collection db) (Q_id obj_id)) \<noteq> 0 \<longrightarrow>
               (\<exists>d \<in> set (announcements_collection db). doc_id d = obj_id \<and>
                  delete_announcement L db announcement_id username =
                    (Inr [(''message'', ''Announcement deleted successfully'')],
                     db\<lparr>announcements_collection :=
                          remove1 d (announcements_collection db)\<rparr>)))"
    proof (cases "find_one (announcements_collection db) (Q_id obj_id)")
      case None
      have cnt: "snd (delete_one (announcements_collection db) (Q_id obj_id)) = 0"
        using delete_one_missing [OF None] by simp
      have "delete_announcement L db announcement_id username = (Inl NotFound, db)"
        using del oid None by simp
      then show ?thesis unfolding cnt by simp
    next
      case (Some d)
      have cnt: "snd (delete_one (announcements_collection db) (Q_id obj_id)) = 1"
        using delete_one_present [OF Some] by simp
      from find_one_SomeD [OF Some]
      have mem: "d \<in> set (announcements_collection db)" and id: "doc_id d = obj_id"
        by simp_all
      have res: "delete_announcement L db announcement_id username =
          (Inr [(''message'', ''Announcement deleted successfully'')],
           db\<lparr>announcements_collection := remove1 d (announcements_collection db)\<rparr>)"
        using del oid Some by simp
      have "\<exists>d \<in> set (announcements_collection db). doc_id d = obj_id \<and>
          delete_announcement L db announcement_id username =
            (Inr [(''message'', ''Announcement deleted successfully'')],
             db\<lparr>announcements_collection := remove1 d (announcements_collection db)\<rparr>)"
        using id res by (intro bexI [OF _ mem] conjI)
      then show ?thesis unfolding cnt by simp
    qed
  qed
qed

theorem delete_announcement_outcomes_witness:
  "''mrodriguez'' \<in> doc_id ` set (teachers_collection example_db) \<and>
   delete_announcement example_library example_db ''not-an-id'' ''mrodriguez''
     = (Inl InvalidId, example_db) \<and>
   delete_announcement example_library example_db ''64b7f0c2a1d3e4f5a6b7c8db'' ''mrodriguez''
     = (Inl NotFound, example_db) \<and>
   delete_announcement example_library example_db ''64b7f0c2a1d3e4f5a6b7c8d9'' ''mrodriguez''
     = (Inr [(''message'', ''Announcement deleted successfully'')],
        example_db\<lparr>announcements_collection := [summer_break]\<rparr>)"
proof -
  have present: "''mrodriguez'' \<in> doc_id ` set (teachers_collection example_db)"
    by (simp add: example_db_def)
  note out = delete_announcement_outcomes [OF present, of example_library]
  have bad: "ObjectId example_library ''not-an-id'' = None"
    by (simp add: example_library_def)
  have missing: "ObjectId example_library ''64b7f0c2a1d3e4f5a6b7c8db'' = Some ''64b7f0c2a1d3e4f5a6b7c8db''"
    "snd (delete_one (announcements_collection example_db) (Q_id ''64b7f0c2a1d3e4f5a6b7c8db'')) = 0"
    by (simp_all add: example_library_def example_db_def science_fair_def summer_break_def)
  have stored: "ObjectId example_library ''64b7f0c2a1d3e4f5a6b7c8d9'' = Some ''64b7f0c2a1d3e4f5a6b7c8d9''"
    "snd (delete_one (announcements_collection example_db) (Q_id ''64b7f0c2a1d3e4f5a6b7c8d9'')) \<noteq> 0"
    by (simp_all add: example_library_def example_db_def science_fair_def summer_break_def)
  have ids: "doc_id summer_break \<noteq> ''64b7f0c2a1d3e4f5a6b7c8d9''"
    "doc_id science_fair = ''64b7f0c2a1d3e4f5a6b7c8d9''" "science_fair \<noteq> summer_break"
    by (simp_all add: science_fair_def summer_break_def)
  from out bad have 1: "delete_announcement example_library example_db ''not-an-id'' ''mrodriguez''
     = (Inl InvalidId, example_db)" by blast
  from out missing have 2: "delete_announcement example_library example_db
     ''64b7f0c2a1d3e4f5a6b7c8db'' ''mrodriguez'' = (Inl NotFound, example_db)" by blast
  from out stored obtain d where "d \<in> set (announcements_collection example_db)"
    "doc_id d = ''64b7f0c2a1d3e4f5a6b7c8d9''"
    "delete_announcement example_library example_db ''64b7f0c2a1d3e4f5a6b7c8d9'' ''mrodriguez''
       = (Inr [(''message'', ''Announcement deleted successfully'')],
          example_db\<lparr>announcements_collection :=
             remove1 d (announcements_collection example_db)\<rparr>)" by blast
  with ids have 3: "delete_announcement example_library example_db ''64b7f0c2a1d3e4f5a6b7c8d9''
     ''mrodriguez'' = (Inr [(''message'', ''Announcement deleted successfully'')],
        example_db\<lparr>announcements_collection := [summer_break]\<rparr>)"
    by (auto simp: example_db_def)
  from present 1 2 3 show ?thesis by simp
qed

subsection \<open>Create and update, case by case\<close>

lemma find_one_update_one_id:
  "find_one (update_one coll (Q_id i) u) (Q_id i)
     = map_option (apply_update u) (find_one coll (Q_id i))"
  by (induction coll) (auto simp: doc_id_apply_update)

lemma datetime_le_utcnow:
  "datetime_le dt (utcnow clock) =
     (case tzinfo dt of None \<Rightarrow> Inr (timestamp dt \<le> clock) | Some off \<Rightarrow> Inl TypeError)"
  by (simp add: datetime_le_def utcnow_def split: option.splits)

lemma create_announcement_bad_expiration:
  assumes "find_one (teachers_collection db) (Q_id username) = Some teacher"
    and "fromisoformat L (replace_Z expiration_date) = None"
  shows "create_announcement L clock clock' new_id db message expiration_date username start_date
    = (Inl InvalidFormat_expiration, db)"
  using assms by (simp add: create_announcement_def InvalidFormat_expiration_def)

lemma create_announcement_aware:
  assumes "find_one (teachers_collection db) (Q_id username) = Some teacher"
    and "fromisoformat L (replace_Z expiration_date) = Some dt"
    and "tzinfo dt = Some off"
  shows "create_announcement L clock clock' new_id db message expiration_date username start_date
    = (Inl TypeError, db)"
  using assms by (simp add: create_announcement_def datetime_le_utcnow)

lemma create_announcement_not_future:
  assumes "find_one (teachers_collection db) (Q_id username) = Some teacher"
    and "fromisoformat L (replace_Z expiration_date) = Some dt"
    and "tzinfo dt = None" and "timestamp dt \<le> clock"
  shows "create_announcement L clock clock' new_id db message expiration_date username start_date
    = (Inl ValidationError, db)"
  using assms by (simp add: create_announcement_def datetime_le_utcnow ValidationError_def)

lemma create_announcement_bad_start:
  assumes "find_one (teachers_collection db) (Q_id username) = Some teacher"
    and "fromisoformat L (replace_Z expiration_date) = Some dt"
    and "tzinfo dt = None" and "clock < timestamp dt"
    and "provided start_date = Some s" and "fromisoformat L (replace_Z s) = None"
  shows "create_announcement L clock clock' new_id db message expiration_date username start_date
    = (Inl InvalidFormat_start, db)"
  using assms by (simp add: create_announcement_def datetime_le_utcnow InvalidFormat_start_def)

lemma create_announcement_ok:
  assumes "find_one (teachers_collection db) (Q_id username) = Some teacher"
    and "fromisoformat L (replace_Z expiration_date) = Some dt"
    and "tzinfo dt = None" and "clock < timestamp dt"
    and "provided start_date = None \<or>
         (\<exists>s. provided start_date = Some s \<and> fromisoformat L (replace_Z s) \<noteq> None)"
    and "announcement =
           [(''message'', message), (''expiration_date'', expiration_date),
            (''created_by'', username), (''created_at'', isoformat L (utcnow clock') @ ''Z'')]
           @ (case provided start_date of None \<Rightarrow> [] | Some s \<Rightarrow> [(''start_date'', s)])"
  shows "create_announcement L clock clock' new_id db message expiration_date username start_date
    = (Inr \<lparr>doc_id = str L new_id, doc_fields = announcement\<rparr>,
       db\<lparr>announcements_collection :=
            announcements_collection db @ [\<lparr>doc_id = new_id, doc_fields = announcement\<rparr>]\<rparr>)"
  using assms
  by (auto simp: create_announcement_def datetime_le_utcnow insert_one_def Let_def)

lemma create_announcement_error_unchanged:
  assumes "create_announcement L clock clock' new_id db message expiration_date username
      start_date = (Inl e, db')"
  shows "db' = db"
  using assms unfolding create_announcement_def Let_def
  by (simp split: option.splits sum.splits bool.splits if_splits)

lemma update_announcement_bad_expiration:
  assumes "find_one (teachers_collection db) (Q_id username) = Some teacher"
    and "ObjectId L announcement_id = Some obj_id"
    and "find_one (announcements_collection db) (Q_id obj_id) = Some existing"
    and "fromisoformat L (replace_Z expiration_date) = None"
  shows "update_announcement L clock db announcement_id message expiration_date username
      start_date = (Inl InvalidFormat_expiration, db)"
  using assms by (simp add: update_announcement_def InvalidFormat_expiration_def)

lemma update_announcement_aware:
  assumes "find_one (teachers_collection db) (Q_id username) = Some teacher"
    and "ObjectId L announcement_id = Some obj_id"
    and "find_one (announcements_collection db) (Q_id obj_id) = Some existing"
    and "fromisoformat L (replace_Z expiration_date) = Some dt"
    and "tzinfo dt = Some off"
  shows "update_announcement L clock db announcement_id message expiration_date username
      start_date = (Inl TypeError, db)"
  using assms by (simp add: update_announcement_def datetime_le_utcnow)

lemma update_announcement_bad_start:
  assumes "find_one (teachers_collection db) (Q_id username) = Some teacher"
    and "ObjectId L announcement_id = Some obj_id"
    and "find_one (announcements_collection db) (Q_id obj_id) = Some existing"
    and "fromisoformat L (replace_Z expiration_date) = Some dt"
    and "tzinfo dt = None" and "clock < timestamp dt"
    and "provided start_date = Some s" and "fromisoformat L (replace_Z s) = None"
  shows "update_announcement L clock db announcement_id message expiration_date username
      start_date = (Inl InvalidFormat_start, db)"
  using assms by (simp add: update_announcement_def datetime_le_utcnow InvalidFormat_start_def)

lemma update_announcement_error_unchanged:
  assumes "update_announcement L clock db announcement_id message expiration_date username
      start_date = (Inl e, db')"
  shows "db' = db"
  using assms unfolding update_announcement_def Let_def
  by (simp add: find_one_update_one_id split: option.splits sum.splits bool.splits if_splits)


lemma update_announcement_ok:
  assumes "find_one (teachers_collection db) (Q_id username) = Some teacher"
    and "ObjectId L announcement_id = Some obj_id"
    and "find_one (announcements_collection db) (Q_id obj_id) = Some existing"
    and "fromisoformat L (replace_Z expiration_date) = Some dt"
    and "tzinfo dt = None" and "clock < timestamp dt"
    and "provided start_date = None \<or>
         (\<exists>s. provided start_date = Some s \<and> fromisoformat L (replace_Z s) \<noteq> None)"
    and "stored =
           (case provided start_date of
              Some s \<Rightarrow>
                apply_update (Set [(''message'', message), (''expiration_date'', expiration_date),
                  (''start_date'', s)]) existing
            | None \<Rightarrow>
                apply_update (Set [(''message'', message), (''expiration_date'', expiration_date)])
                  (apply_update (Unset ''start_date'') existing))"
    and "coll =
           (case provided start_date of
              Some s \<Rightarrow>
                update_one (announcements_collection db) (Q_id obj_id)
                  (Set [(''message'', message), (''expiration_date'', expiration_date),
                    (''start_date'', s)])
            | None \<Rightarrow>
                update_one
                  (update_one (announcements_collection db) (Q_id obj_id) (Unset ''start_date''))
                  (Q_id obj_id)
                  (Set [(''message'', message), (''expiration_date'', expiration_date)]))"
  shows "update_announcement L clock db announcement_id message expiration_date username
      start_date = (Inr (id_to_str L stored), db\<lparr>announcements_collection := coll\<rparr>)
    \<and> find_one coll (Q_id obj_id) = Some stored"
  using assms unfolding update_announcement_def Let_def
  by (auto simp: datetime_le_utcnow find_one_update_one_id)

lemma get_after_set:
  "get (apply_update (Set [(''message'', m), (''expiration_date'', e)]) d) k =
     (if k = ''expiration_date'' then Some e else if k = ''message'' then Some m else get d k)"
  by (simp add: get_def update_conv')

lemma get_after_set_start:
  "get (apply_update (Set [(''message'', m), (''expiration_date'', e), (''start_date'', s)]) d) k =
     (if k = ''start_date'' then Some s
      else if k = ''expiration_date'' then Some e
      else if k = ''message'' then Some m else get d k)"
  by (simp add: get_def update_conv')

lemma get_after_unset:
  "get (apply_update (Unset f) d) k = (if k = f then None else get d k)"
  by (simp add: get_def delete_conv')

text \<open>
  C3. When the expiration date parses to an aware datetime (the string carries a UTC offset,
  as the \<open>Z\<close> suffix becomes \<open>+00:00\<close>), the comparison with the naive \<open>utcnow()\<close> raises
  TypeError, which \<open>except ValueError\<close> does not catch: create, and update on an existing
  record, end with TypeError, which is none of the errors of the taxonomy, and write nothing.
\<close>

theorem aware_expiration_raises_TypeError:
  assumes "username \<in> doc_id ` set (teachers_collection db)"
    and "fromisoformat L (replace_Z expiration_date) = Some expiration_dt"
    and "tzinfo expiration_dt \<noteq> None"
  shows "create_announcement L clock clock' new_id db message expiration_date username start_date
           = (Inl TypeError, db) \<and>
         (\<forall>obj_id. ObjectId L announcement_id = Some obj_id \<and>
              obj_id \<in> doc_id ` set (announcements_collection db) \<longrightarrow>
            update_announcement L clock db announcement_id message expiration_date username
              start_date = (Inl TypeError, db)) \<and>
         TypeError \<notin> taxonomy"
proof (intro conjI allI impI)
  from find_one_id_Some [OF assms(1)] obtain teacher where
    t: "find_one (teachers_collection db) (Q_id username) = Some teacher"
    by (elim exE)
  from assms(3) obtain off where aware: "tzinfo expiration_dt = Some off"
    by (cases "tzinfo expiration_dt") simp_all
  show "create_announcement L clock clock' new_id db message expiration_date username start_date
      = (Inl TypeError, db)"
    by (rule create_announcement_aware [OF t assms(2) aware])
  show "TypeError \<notin> taxonomy"
    by (simp add: taxonomy_def Unauthorized_def InvalidId_def NotFound_def ValidationError_def
        InvalidFormat_expiration_def InvalidFormat_start_def)
  fix obj_id
  assume "ObjectId L announcement_id = Some obj_id \<and>
    obj_id \<in> doc_id ` set (announcements_collection db)"
  then have oid: "ObjectId L announcement_id = Some obj_id"
    and "obj_id \<in> doc_id ` set (announcements_collection db)" by simp_all
  from find_one_id_Some [OF this(2)] obtain existing where
    ex: "find_one (announcements_collection db) (Q_id obj_id) = Some existing"
    by (elim exE)
  show "update_announcement L clock db announcement_id message expiration_date username
      start_date = (Inl TypeError, db)"
    by (rule update_announcement_aware [OF t oid ex assms(2) aware])
qed

theorem aware_expiration_raises_TypeError_witness:
  "''mrodriguez'' \<in> doc_id ` set (teachers_collection example_db) \<and>
   fromisoformat example_library (replace_Z ''2030-01-01T00:00:00Z'')
     = Some \<lparr>timestamp = 64029052800000000, tzinfo = Some 0\<rparr> \<and>
   create_announcement example_library 63871286400000000 63871286400000001
       ''64b7f0c2a1d3e4f5a6b7c8db'' example_db ''Bake sale'' ''2030-01-01T00:00:00Z''
       ''mrodriguez'' None
     = (Inl TypeError, example_db) \<and>
   update_announcement example_library 63871286400000000 example_db
       ''64b7f0c2a1d3e4f5a6b7c8d9'' ''Bake sale'' ''2030-01-01T00:00:00Z'' ''mrodriguez'' None
     = (Inl TypeError, example_db)"
proof -
  have present: "''mrodriguez'' \<in> doc_id ` set (teachers_collection example_db)"
    by (simp add: example_db_def)
  have parsed: "fromisoformat example_library (replace_Z ''2030-01-01T00:00:00Z'')
     = Some \<lparr>timestamp = 64029052800000000, tzinfo = Some 0\<rparr>"
    by (simp add: example_library_def replace_Z_def)
  have aware: "tzinfo \<lparr>timestamp = 64029052800000000, tzinfo = Some 0\<rparr> \<noteq> None"
    by simp
  have stored: "ObjectId example_library ''64b7f0c2a1d3e4f5a6b7c8d9''
      = Some ''64b7f0c2a1d3e4f5a6b7c8d9'' \<and>
    ''64b7f0c2a1d3e4f5a6b7c8d9'' \<in> doc_id ` set (announcements_collection example_db)"
    by (simp add: example_library_def example_db_def science_fair_def)
  from aware_expiration_raises_TypeError [OF present parsed aware,
      of 63871286400000000 63871286400000001 "''64b7f0c2a1d3e4f5a6b7c8db''" "''Bake sale''"
        None "''64b7f0c2a1d3e4f5a6b7c8d9''"]
    stored present parsed
  show ?thesis by blast
qed

subsection \<open>Create\<close>

text \<open>
  C2, as the specification states it, fails: a create call by a teacher whose expiration
  date parses and lies one second in the future does not succeed when its start date does
  not parse; it is rejected with the start-date InvalidFormat, and nothing is inserted.
\<close>

theorem create_future_expiration_counterexample:
  "''mrodriguez'' \<in> doc_id ` set (teachers_collection example_db) \<and>
   fromisoformat example_library (replace_Z ''2025-01-01T00:00:01'')
     = Some \<lparr>timestamp = 63871286401000000, tzinfo = None\<rparr> \<and>
   (63871286400000000 :: int) + 1000000 \<le> 63871286401000000 \<and>
   create_announcement example_library 63871286400000000 63871286400000001
       ''64b7f0c2a1d3e4f5a6b7c8db'' example_db ''Bake sale'' ''2025-01-01T00:00:01''
       ''mrodriguez'' (Some ''soon'')
     = (Inl InvalidFormat_start, example_db)"
proof -
  have present: "''mrodriguez'' \<in> doc_id ` set (teachers_collection example_db)"
    by (simp add: example_db_def)
  from find_one_id_Some [OF present] obtain teacher where
    t: "find_one (teachers_collection example_db) (Q_id ''mrodriguez'') = Some teacher"
    by (elim exE)
  have parsed: "fromisoformat example_library (replace_Z ''2025-01-01T00:00:01'')
     = Some \<lparr>timestamp = 63871286401000000, tzinfo = None\<rparr>"
    by (simp add: example_library_def replace_Z_def)
  have start: "provided (Some ''soon'') = Some ''soon''"
    "fromisoformat example_library (replace_Z ''soon'') = None"
    by (simp_all add: example_library_def replace_Z_def)
  have "create_announcement example_library 63871286400000000 63871286400000001
       ''64b7f0c2a1d3e4f5a6b7c8db'' example_db ''Bake sale'' ''2025-01-01T00:00:01''
       ''mrodriguez'' (Some ''soon'')
     = (Inl InvalidFormat_start, example_db)"
    by (rule create_announcement_bad_start [OF t parsed _ _ start]) simp_all
  with present parsed show ?thesis by simp
qed

text \<open>
  C2, amended. For a create call by a username of the teachers collection whose expiration
  date parses to a naive datetime: if the parsed date is equal to or earlier than the
  current UTC time, the call fails with ValidationError; if it is later (so in particular
  one second or more in the future) and the start date is absent, empty or parseable, the
  call succeeds, returns the record with the new id rendered as a string, and appends the
  record to the collection.
\<close>

theorem create_expiration_check:
  assumes "username \<in> doc_id ` set (teachers_collection db)"
    and "fromisoformat L (replace_Z expiration_date) = Some expiration_dt"
    and "tzinfo expiration_dt = None"
  shows "(timestamp expiration_dt \<le> clock \<longrightarrow>
            create_announcement L clock clock' new_id db message expiration_date username
              start_date = (Inl ValidationError, db)) \<and>
         (clock < timestamp expiration_dt \<and>
          (provided start_date = None \<or>
           (\<exists>s. provided start_date = Some s \<and> fromisoformat L (replace_Z s) \<noteq> None)) \<longrightarrow>
            (\<exists>announcement.
               create_announcement L clock clock' new_id db message expiration_date username
                 start_date =
                 (Inr \<lparr>doc_id = str L new_id, doc_fields = announcement\<rparr>,
                  db\<lparr>announcements_collection := announcements_collection db @
                       [\<lparr>doc_id = new_id, doc_fields = announcement\<rparr>]\<rparr>) \<and>
               map_of announcement ''message'' = Some message \<and>
               map_of announcement ''expiration_date'' = Some expiration_date))"
proof (intro conjI impI)
  from find_one_id_Some [OF assms(1)] obtain teacher where
    t: "find_one (teachers_collection db) (Q_id username) = Some teacher"
    by (elim exE)
  show "create_announcement L clock clock' new_id db message expiration_date username
      start_date = (Inl ValidationError, db)" if "timestamp expiration_dt \<le> clock"
    by (rule create_announcement_not_future [OF t assms(2,3) that])
  assume ok: "clock < timestamp expiration_dt \<and>
          (provided start_date = None \<or>
           (\<exists>s. provided start_date = Some s \<and> fromisoformat L (replace_Z s) \<noteq> None))"
  define announcement where "announcement =
      [(''message'', message), (''expiration_date'', expiration_date),
       (''created_by'', username), (''created_at'', isoformat L (utcnow clock') @ ''Z'')]
      @ (case provided start_date of None \<Rightarrow> [] | Some s \<Rightarrow> [(''start_date'', s)])"
  have "create_announcement L clock clock' new_id db message expiration_date username
      start_date =
      (Inr \<lparr>doc_id = str L new_id, doc_fields = announcement\<rparr>,
       db\<lparr>announcements_collection := announcements_collection db @
            [\<lparr>doc_id = new_id, doc_fields = announcement\<rparr>]\<rparr>)"
    using ok by (intro create_announcement_ok [OF t assms(2,3) _ _ announcement_def]) simp_all
  moreover have "map_of announcement ''message'' = Some message"
    "map_of announcement ''expiration_date'' = Some expiration_date"
    by (simp_all add: announcement_def)
  ultimately show "\<exists>announcement.
      create_announcement L clock clock' new_id db message expiration_date username
        start_date =
        (Inr \<lparr>doc_id = str L new_id, doc_fields = announcement\<rparr>,
         db\<lparr>announcements_collection := announcements_collection db @
              [\<lparr>doc_id = new_id, doc_fields = announcement\<rparr>]\<rparr>) \<and>
      map_of announcement ''message'' = Some message \<and>
      map_of announcement ''expiration_date'' = Some expiration_date"
    by (intro exI [of _ announcement] conjI)
qed

theorem create_expiration_check_witness:
  "''mrodriguez'' \<in> doc_id ` set (teachers_collection example_db) \<and>
   fromisoformat example_library (replace_Z ''2025-01-01T00:00:00'')
     = Some \<lparr>timestamp = 63871286400000000, tzinfo = None\<rparr> \<and>
   fromisoformat example_library (replace_Z ''2025-01-01T00:00:01'')
     = Some \<lparr>timestamp = 63871286401000000, tzinfo = None\<rparr> \<and>
   create_announcement example_library 63871286400000000 63871286400000001
       ''64b7f0c2a1d3e4f5a6b7c8db'' example_db ''Bake sale'' ''2025-01-01T00:00:00''
       ''mrodriguez'' None
     = (Inl ValidationError, example_db) \<and>
   (\<exists>announcement.
      create_announcement example_library 63871286400000000 63871286400000001
          ''64b7f0c2a1d3e4f5a6b7c8db'' example_db ''Bake sale'' ''2025-01-01T00:00:01''
          ''mrodriguez'' None
        = (Inr \<lparr>doc_id = ''64b7f0c2a1d3e4f5a6b7c8db'', doc_fields = announcement\<rparr>,
           example_db\<lparr>announcements_collection := announcements_collection example_db @
             [\<lparr>doc_id = ''64b7f0c2a1d3e4f5a6b7c8db'', doc_fields = announcement\<rparr>]\<rparr>) \<and>
      map_of announcement ''message'' = Some ''Bake sale'' \<and>
      map_of announcement ''expiration_date'' = Some ''2025-01-01T00:00:01'')"
proof -
  have present: "''mrodriguez'' \<in> doc_id ` set (teachers_collection example_db)"
    by (simp add: example_db_def)
  have now: "fromisoformat example_library (replace_Z ''2025-01-01T00:00:00'')
     = Some \<lparr>timestamp = 63871286400000000, tzinfo = None\<rparr>"
    by (simp add: example_library_def replace_Z_def)
  have later: "fromisoformat example_library (replace_Z ''2025-01-01T00:00:01'')
     = Some \<lparr>timestamp = 63871286401000000, tzinfo = None\<rparr>"
    by (simp add: example_library_def replace_Z_def)
  have str: "str example_library ''64b7f0c2a1d3e4f5a6b7c8db'' = ''64b7f0c2a1d3e4f5a6b7c8db''"
    by (simp add: example_library_def)
  from create_expiration_check [OF present now, where clock = 63871286400000000
      and clock' = 63871286400000001 and new_id = "''64b7f0c2a1d3e4f5a6b7c8db''"
      and message = "''Bake sale''" and start_date = None]
  have 1: "create_announcement example_library 63871286400000000 63871286400000001
       ''64b7f0c2a1d3e4f5a6b7c8db'' example_db ''Bake sale'' ''2025-01-01T00:00:00''
       ''mrodriguez'' None
     = (Inl ValidationError, example_db)" by simp
  from create_expiration_check [OF present later, where clock = 63871286400000000
      and clock' = 63871286400000001 and new_id = "''64b7f0c2a1d3e4f5a6b7c8db''"
      and message = "''Bake sale''" and start_date = None]
  have 2: "\<exists>announcement.
      create_announcement example_library 63871286400000000 63871286400000001
          ''64b7f0c2a1d3e4f5a6b7c8db'' example_db ''Bake sale'' ''2025-01-01T00:00:01''
          ''mrodriguez'' None
        = (Inr \<lparr>doc_id = ''64b7f0c2a1d3e4f5a6b7c8db'', doc_fields = announcement\<rparr>,
           example_db\<lparr>announcements_collection := announcements_collection example_db @
             [\<lparr>doc_id = ''64b7f0c2a1d3e4f5a6b7c8db'', doc_fields = announcement\<rparr>]\<rparr>) \<and>
      map_of announcement ''message'' = Some ''Bake sale'' \<and>
      map_of announcement ''expiration_date'' = Some ''2025-01-01T00:00:01''"
    by (simp add: str)
  from present now later 1 2 show ?thesis by (intro conjI)
qed

subsection \<open>Failed requests write nothing\<close>

text \<open>
  C6. A create or update call that ends with an error returns the database it was given:
  every raise of the two endpoints comes before the first write. In particular, for a known
  teacher (and, for update, an id of a stored record), an expiration date that does not
  parse gives the expiration-date InvalidFormat, and a start date that does not parse, after
  a valid expiration date, gives the start-date InvalidFormat, with the database unchanged.
\<close>

theorem failed_write_leaves_store_unchanged:
  "(create_announcement L clock clock' new_id db message expiration_date username start_date
        = (Inl e, db') \<longrightarrow> db' = db) \<and>
   (update_announcement L clock db announcement_id message expiration_date username start_date
        = (Inl e, db') \<longrightarrow> db' = db) \<and>
   (username \<in> doc_id ` set (teachers_collection db) \<and>
    fromisoformat L (replace_Z expiration_date) = None \<longrightarrow>
      create_announcement L clock clock' new_id db message expiration_date username start_date
        = (Inl InvalidFormat_expiration, db) \<and>
      (\<forall>obj_id. ObjectId L announcement_id = Some obj_id \<and>
           obj_id \<in> doc_id ` set (announcements_collection db) \<longrightarrow>
         update_announcement L clock db announcement_id message expiration_date username
           start_date = (Inl InvalidFormat_expiration, db))) \<and>
   (username \<in> doc_id ` set (teachers_collection db) \<and>
    (\<exists>dt. fromisoformat L (replace_Z expiration_date) = Some dt \<and> tzinfo dt = None \<and>
       clock < timestamp dt) \<and>
    (\<exists>s. provided start_date = Some s \<and> fromisoformat L (replace_Z s) = None) \<longrightarrow>
      create_announcement L clock clock' new_id db message expiration_date username start_date
        = (Inl InvalidFormat_start, db) \<and>
      (\<forall>obj_id. ObjectId L announcement_id = Some obj_id \<and>
           obj_id \<in> doc_id ` set (announcements_collection db) \<longrightarrow>
         update_announcement L clock db announcement_id message expiration_date username
           start_date = (Inl InvalidFormat_start, db)))"
proof (intro conjI impI allI)
  show "db' = db" if "create_announcement L clock clock' new_id db message expiration_date
      username start_date = (Inl e, db')"
    using that by (rule create_announcement_error_unchanged)
  show "db' = db" if "update_announcement L clock db announcement_id message expiration_date
      username start_date = (Inl e, db')"
    using that by (rule update_announcement_error_unchanged)
next
  assume h: "username \<in> doc_id ` set (teachers_collection db) \<and>
    fromisoformat L (replace_Z expiration_date) = None"
  from h find_one_id_Some obtain teacher where
    t: "find_one (teachers_collection db) (Q_id username) = Some teacher"
    by metis
  from h have bad: "fromisoformat L (replace_Z expiration_date) = None" by simp
  show "create_announcement L clock clock' new_id db message expiration_date username
      start_date = (Inl InvalidFormat_expiration, db)"
    by (rule create_announcement_bad_expiration [OF t bad])
  fix obj_id
  assume "ObjectId L announcement_id = Some obj_id \<and>
    obj_id \<in> doc_id ` set (announcements_collection db)"
  then have oid: "ObjectId L announcement_id = Some obj_id"
    and "obj_id \<in> doc_id ` set (announcements_collection db)" by simp_all
  from find_one_id_Some [OF this(2)] obtain existing where
    ex: "find_one (announcements_collection db) (Q_id obj_id) = Some existing"
    by (elim exE)
  show "update_announcement L clock db announcement_id message expiration_date username
      start_date = (Inl InvalidFormat_expiration, db)"
    by (rule update_announcement_bad_expiration [OF t oid ex bad])
next
  assume h: "username \<in> doc_id ` set (teachers_collection db) \<and>
    (\<exists>dt. fromisoformat L (replace_Z expiration_date) = Some dt \<and> tzinfo dt = None \<and>
       clock < timestamp dt) \<and>
    (\<exists>s. provided start_date = Some s \<and> fromisoformat L (replace_Z s) = None)"
  from h find_one_id_Some obtain teacher where
    t: "find_one (teachers_collection db) (Q_id username) = Some teacher"
    by metis
  from h obtain dt where dt: "fromisoformat L (replace_Z expiration_date) = Some dt"
    "tzinfo dt = None" "clock < timestamp dt" by (elim conjE exE)
  from h obtain s where s: "provided start_date = Some s"
    "fromisoformat L (replace_Z s) = None" by (elim conjE exE)
  show "create_announcement L clock clock' new_id db message expiration_date username
      start_date = (Inl InvalidFormat_start, db)"
    by (rule create_announcement_bad_start [OF t dt s])
  fix obj_id
  assume "ObjectId L announcement_id = Some obj_id \<and>
    obj_id \<in> doc_id ` set (announcements_collection db)"
  then have oid: "ObjectId L announcement_id = Some obj_id"
    and "obj_id \<in> doc_id ` set (announcements_collection db)" by simp_all
  from find_one_id_Some [OF this(2)] obtain existing where
    ex: "find_one (announcements_collection db) (Q_id obj_id) = Some existing"
    by (elim exE)
  show "update_announcement L clock db announcement_id message expiration_date username
      start_date = (Inl InvalidFormat_start, db)"
    by (rule update_announcement_bad_start [OF t oid ex dt s])
qed


theorem failed_write_leaves_store_unchanged_witness:
  "''mrodriguez'' \<in> doc_id ` set (teachers_collection example_db) \<and>
   fromisoformat example_library (replace_Z ''not-a-date'') = None \<and>
   create_announcement example_library 63871286400000000 63871286400000001
       ''64b7f0c2a1d3e4f5a6b7c8db'' example_db ''Bake sale'' ''not-a-date'' ''mrodriguez'' None
     = (Inl InvalidFormat_expiration, example_db) \<and>
   update_announcement example_library 63871286400000000 example_db
       ''64b7f0c2a1d3e4f5a6b7c8d9'' ''Bake sale'' ''not-a-date'' ''mrodriguez'' None
     = (Inl InvalidFormat_expiration, example_db) \<and>
   create_announcement example_library 63871286400000000 63871286400000001
       ''64b7f0c2a1d3e4f5a6b7c8db'' example_db ''Bake sale'' ''2025-01-01T00:00:01''
       ''mrodriguez'' (Some ''soon'')
     = (Inl InvalidFormat_start, example_db) \<and>
   update_announcement example_library 63871286400000000 example_db
       ''64b7f0c2a1d3e4f5a6b7c8d9'' ''Bake sale'' ''2025-01-01T00:00:01'' ''mrodriguez''
       (Some ''soon'')
     = (Inl InvalidFormat_start, example_db)"
proof -
  have present: "''mrodriguez'' \<in> doc_id ` set (teachers_collection example_db)"
    by (simp add: example_db_def)
  have bad: "fromisoformat example_library (replace_Z ''not-a-date'') = None"
    by (simp add: example_library_def replace_Z_def)
  have later: "\<exists>dt. fromisoformat example_library (replace_Z ''2025-01-01T00:00:01'') = Some dt \<and>
      tzinfo dt = None \<and> 63871286400000000 < timestamp dt"
    by (simp add: example_library_def replace_Z_def)
  have soon: "\<exists>s. provided (Some ''soon'') = Some s \<and>
      fromisoformat example_library (replace_Z s) = None"
    by (simp add: example_library_def replace_Z_def)
  have stored: "ObjectId example_library ''64b7f0c2a1d3e4f5a6b7c8d9''
      = Some ''64b7f0c2a1d3e4f5a6b7c8d9'' \<and>
    ''64b7f0c2a1d3e4f5a6b7c8d9'' \<in> doc_id ` set (announcements_collection example_db)"
    by (simp add: example_library_def example_db_def science_fair_def)
  note expiration = failed_write_leaves_store_unchanged [where L = example_library
      and db = example_db and username = "''mrodriguez''" and expiration_date = "''not-a-date''"
      and clock = 63871286400000000 and clock' = 63871286400000001
      and new_id = "''64b7f0c2a1d3e4f5a6b7c8db''" and message = "''Bake sale''"
      and start_date = None and announcement_id = "''64b7f0c2a1d3e4f5a6b7c8d9''"
      and e = InvalidFormat_expiration and db' = example_db]
  note start = failed_write_leaves_store_unchanged [where L = example_library
      and db = example_db and username = "''mrodriguez''"
      and expiration_date = "''2025-01-01T00:00:01''"
      and clock = 63871286400000000 and clock' = 63871286400000001
      and new_id = "''64b7f0c2a1d3e4f5a6b7c8db''" and message = "''Bake sale''"
      and start_date = "Some ''soon''" and announcement_id = "''64b7f0c2a1d3e4f5a6b7c8d9''"
      and e = InvalidFormat_start and db' = example_db]
  from expiration present bad stored
  have 1: "create_announcement example_library 63871286400000000 63871286400000001
       ''64b7f0c2a1d3e4f5a6b7c8db'' example_db ''Bake sale'' ''not-a-date'' ''mrodriguez'' None
     = (Inl InvalidFormat_expiration, example_db)"
    and 2: "update_announcement example_library 63871286400000000 example_db
       ''64b7f0c2a1d3e4f5a6b7c8d9'' ''Bake sale'' ''not-a-date'' ''mrodriguez'' None
     = (Inl InvalidFormat_expiration, example_db)"
    by blast+
  from start present later soon stored
  have 3: "create_announcement example_library 63871286400000000 63871286400000001
       ''64b7f0c2a1d3e4f5a6b7c8db'' example_db ''Bake sale'' ''2025-01-01T00:00:01''
       ''mrodriguez'' (Some ''soon'')
     = (Inl InvalidFormat_start, example_db)"
    and 4: "update_announcement example_library 63871286400000000 example_db
       ''64b7f0c2a1d3e4f5a6b7c8d9'' ''Bake sale'' ''2025-01-01T00:00:01'' ''mrodriguez''
       (Some ''soon'')
     = (Inl InvalidFormat_start, example_db)"
    by blast+
  from present bad 1 2 3 4 show ?thesis by (intro conjI)
qed

subsection \<open>Update\<close>

text \<open>
  C4. An update call that passes all validations (known teacher, well-formed id of a
  stored record, expiration date that parses to a naive datetime later than the clock, and
  a start date that parses when a non-empty one is given) succeeds and returns the stored
  record with its id rendered. In the stored record \<open>message\<close> and \<open>expiration_date\<close> are
  the given values; \<open>start_date\<close> is the given string when a non-empty one is given, and is
  absent when none (or the empty string) is given; \<open>_id\<close>, \<open>created_by\<close> and \<open>created_at\<close>
  are those of the record before the call.
\<close>

theorem update_announcement_effect:
  assumes "username \<in> doc_id ` set (teachers_collection db)"
    and "ObjectId L announcement_id = Some obj_id"
    and "find_one (announcements_collection db) (Q_id obj_id) = Some existing"
    and "fromisoformat L (replace_Z expiration_date) = Some expiration_dt"
    and "tzinfo expiration_dt = None" and "clock < timestamp expiration_dt"
    and "\<forall>s. start_date = Some s \<and> s \<noteq> [] \<longrightarrow> fromisoformat L (replace_Z s) \<noteq> None"
  shows "\<exists>stored db'.
      update_announcement L clock db announcement_id message expiration_date username
        start_date = (Inr (id_to_str L stored), db') \<and>
      find_one (announcements_collection db') (Q_id obj_id) = Some stored \<and>
      get stored ''message'' = Some message \<and>
      get stored ''expiration_date'' = Some expiration_date \<and>
      (\<forall>s. start_date = Some s \<and> s \<noteq> [] \<longrightarrow> get stored ''start_date'' = Some s) \<and>
      (start_date = None \<or> start_date = Some [] \<longrightarrow> get stored ''start_date'' = None) \<and>
      doc_id stored = doc_id existing \<and>
      get stored ''created_by'' = get existing ''created_by'' \<and>
      get stored ''created_at'' = get existing ''created_at''"
proof -
  from find_one_id_Some [OF assms(1)] obtain teacher where
    t: "find_one (teachers_collection db) (Q_id username) = Some teacher"
    by (elim exE)
  have start_ok: "provided start_date = None \<or>
      (\<exists>s. provided start_date = Some s \<and> fromisoformat L (replace_Z s) \<noteq> None)"
    using assms(7) by (cases start_date) simp_all
  define stored where "stored =
     (case provided start_date of
        Some s \<Rightarrow>
          apply_update (Set [(''message'', message), (''expiration_date'', expiration_date),
            (''start_date'', s)]) existing
      | None \<Rightarrow>
          apply_update (Set [(''message'', message), (''expiration_date'', expiration_date)])
            (apply_update (Unset ''start_date'') existing))"
  define coll where "coll =
     (case provided start_date of
        Some s \<Rightarrow>
          update_one (announcements_collection db) (Q_id obj_id)
            (Set [(''message'', message), (''expiration_date'', expiration_date),
              (''start_date'', s)])
      | None \<Rightarrow>
          update_one
            (update_one (announcements_collection db) (Q_id obj_id) (Unset ''start_date''))
            (Q_id obj_id)
            (Set [(''message'', message), (''expiration_date'', expiration_date)]))"
  note ok = update_announcement_ok [OF t assms(2-6) start_ok stored_def coll_def]
  have fields: "get stored ''message'' = Some message"
    "get stored ''expiration_date'' = Some expiration_date"
    "get stored ''created_by'' = get existing ''created_by''"
    "get stored ''created_at'' = get existing ''created_at''"
    by (simp_all add: stored_def get_after_set get_after_set_start get_after_unset
        del: apply_update.simps split: option.splits)
  have start: "get stored ''start_date'' = provided start_date"
    by (simp add: stored_def get_after_set get_after_set_start get_after_unset
        del: apply_update.simps split: option.splits)
  have given: "\<forall>s. start_date = Some s \<and> s \<noteq> [] \<longrightarrow> get stored ''start_date'' = Some s"
    using start by simp
  have absent: "start_date = None \<or> start_date = Some [] \<longrightarrow> get stored ''start_date'' = None"
    using start by auto
  have id: "doc_id stored = doc_id existing"
    by (simp add: stored_def doc_id_apply_update split: option.splits)
  have found: "find_one (announcements_collection (db\<lparr>announcements_collection := coll\<rparr>))
      (Q_id obj_id) = Some stored"
    using ok by simp
  from ok have res: "update_announcement L clock db announcement_id message expiration_date
      username start_date = (Inr (id_to_str L stored), db\<lparr>announcements_collection := coll\<rparr>)"
    by (rule conjunct1)
  from res found fields(1,2) given absent id fields(3,4)
  show ?thesis by (intro exI conjI)
qed

theorem update_announcement_effect_witness:
  "''mrodriguez'' \<in> doc_id ` set (teachers_collection example_db) \<and>
   ObjectId example_library ''64b7f0c2a1d3e4f5a6b7c8d9'' = Some ''64b7f0c2a1d3e4f5a6b7c8d9'' \<and>
   find_one (announcements_collection example_db) (Q_id ''64b7f0c2a1d3e4f5a6b7c8d9'')
     = Some science_fair \<and>
   get science_fair ''start_date'' = Some ''2024-12-15T00:00:00'' \<and>
   (\<exists>stored db'.
      update_announcement example_library 63871286400000000 example_db
          ''64b7f0c2a1d3e4f5a6b7c8d9'' ''Science fair moved'' ''2025-01-01T00:00:01''
          ''mrodriguez'' None
        = (Inr (id_to_str example_library stored), db') \<and>
      find_one (announcements_collection db') (Q_id ''64b7f0c2a1d3e4f5a6b7c8d9'') = Some stored \<and>
      get stored ''message'' = Some ''Science fair moved'' \<and>
      get stored ''expiration_date'' = Some ''2025-01-01T00:00:01'' \<and>
      get stored ''start_date'' = None \<and>
      doc_id stored = ''64b7f0c2a1d3e4f5a6b7c8d9'' \<and>
      get stored ''created_by'' = Some ''mrodriguez'' \<and>
      get stored ''created_at'' = Some ''2024-12-01T08:00:00.514213Z'') \<and>
   (\<exists>stored db'.
      update_announcement example_library 63871286400000000 example_db
          ''64b7f0c2a1d3e4f5a6b7c8d9'' ''Science fair moved'' ''2030-01-01T00:00:00''
          ''mrodriguez'' (Some ''2025-01-01T00:00:01'')
        = (Inr (id_to_str example_library stored), db') \<and>
      find_one (announcements_collection db') (Q_id ''64b7f0c2a1d3e4f5a6b7c8d9'') = Some stored \<and>
      get stored ''message'' = Some ''Science fair moved'' \<and>
      get stored ''expiration_date'' = Some ''2030-01-01T00:00:00'' \<and>
      get stored ''start_date'' = Some ''2025-01-01T00:00:01'' \<and>
      doc_id stored = ''64b7f0c2a1d3e4f5a6b7c8d9'' \<and>
      get stored ''created_by'' = Some ''mrodriguez'' \<and>
      get stored ''created_at'' = Some ''2024-12-01T08:00:00.514213Z'')"
proof -
  have present: "''mrodriguez'' \<in> doc_id ` set (teachers_collection example_db)"
    by (simp add: example_db_def)
  have oid: "ObjectId example_library ''64b7f0c2a1d3e4f5a6b7c8d9''
      = Some ''64b7f0c2a1d3e4f5a6b7c8d9''"
    by (simp add: example_library_def)
  have ex: "find_one (announcements_collection example_db) (Q_id ''64b7f0c2a1d3e4f5a6b7c8d9'')
     = Some science_fair"
    by (simp add: example_db_def science_fair_def summer_break_def)
  have later: "fromisoformat example_library (replace_Z ''2025-01-01T00:00:01'')
     = Some \<lparr>timestamp = 63871286401000000, tzinfo = None\<rparr>"
    by (simp add: example_library_def replace_Z_def)
  have far: "fromisoformat example_library (replace_Z ''2030-01-01T00:00:00'')
     = Some \<lparr>timestamp = 64029052800000000, tzinfo = None\<rparr>"
    by (simp add: example_library_def replace_Z_def)
  have none_ok: "\<forall>s. (None :: string option) = Some s \<and> s \<noteq> [] \<longrightarrow>
      fromisoformat example_library (replace_Z s) \<noteq> None"
    by simp
  have given_ok: "\<forall>s. Some ''2025-01-01T00:00:01'' = Some s \<and> s \<noteq> [] \<longrightarrow>
      fromisoformat example_library (replace_Z s) \<noteq> None"
    using later by simp
  have before: "get science_fair ''start_date'' = Some ''2024-12-15T00:00:00''"
    "doc_id science_fair = ''64b7f0c2a1d3e4f5a6b7c8d9''"
    "get science_fair ''created_by'' = Some ''mrodriguez''"
    "get science_fair ''created_at'' = Some ''2024-12-01T08:00:00.514213Z''"
    by (simp_all add: get_def science_fair_def)
  from update_announcement_effect [OF present oid ex later _ _ none_ok,
      where clock = 63871286400000000 and message = "''Science fair moved''"]
  have removed: "\<exists>stored db'.
      update_announcement example_library 63871286400000000 example_db
          ''64b7f0c2a1d3e4f5a6b7c8d9'' ''Science fair moved'' ''2025-01-01T00:00:01''
          ''mrodriguez'' None
        = (Inr (id_to_str example_library stored), db') \<and>
      find_one (announcements_collection db') (Q_id ''64b7f0c2a1d3e4f5a6b7c8d9'') = Some stored \<and>
      get stored ''message'' = Some ''Science fair moved'' \<and>
      get stored ''expiration_date'' = Some ''2025-01-01T00:00:01'' \<and>
      get stored ''start_date'' = None \<and>
      doc_id stored = ''64b7f0c2a1d3e4f5a6b7c8d9'' \<and>
      get stored ''created_by'' = Some ''mrodriguez'' \<and>
      get stored ''created_at'' = Some ''2024-12-01T08:00:00.514213Z''"
    by (simp add: before)
  from update_announcement_effect [OF present oid ex far _ _ given_ok,
      where clock = 63871286400000000 and message = "''Science fair moved''"]
  have given: "\<exists>stored db'.
      update_announcement example_library 63871286400000000 example_db
          ''64b7f0c2a1d3e4f5a6b7c8d9'' ''Science fair moved'' ''2030-01-01T00:00:00''
          ''mrodriguez'' (Some ''2025-01-01T00:00:01'')
        = (Inr (id_to_str example_library stored), db') \<and>
      find_one (announcements_collection db') (Q_id ''64b7f0c2a1d3e4f5a6b7c8d9'') = Some stored \<and>
      get stored ''message'' = Some ''Science fair moved'' \<and>
      get stored ''expiration_date'' = Some ''2030-01-01T00:00:00'' \<and>
      get stored ''start_date'' = Some ''2025-01-01T00:00:01'' \<and>
      doc_id stored = ''64b7f0c2a1d3e4f5a6b7c8d9'' \<and>
      get stored ''created_by'' = Some ''mrodriguez'' \<and>
      get stored ''created_at'' = Some ''2024-12-01T08:00:00.514213Z''"
    by (simp add: before)
  from present oid ex before(1) removed given show ?thesis by (intro conjI)
qed

subsection \<open>The empty start date\<close>

lemma create_announcement_InrD:
  assumes "create_announcement L clock clock' new_id db message expiration_date username
      start_date = (Inr created, db')"
  shows "\<exists>announcement.
      created = \<lparr>doc_id = str L new_id, doc_fields = announcement\<rparr> \<and>
      db' = db\<lparr>announcements_collection :=
              announcements_collection db @ [\<lparr>doc_id = new_id, doc_fields = announcement\<rparr>]\<rparr> \<and>
      map_of announcement ''message'' = Some message \<and>
      map_of announcement ''expiration_date'' = Some expiration_date \<and>
      map_of announcement ''start_date'' = provided start_date"
  using assms unfolding create_announcement_def Let_def
  by (auto simp: insert_one_def split: option.splits sum.splits bool.splits if_splits)

lemma update_announcement_InrD:
  assumes "update_announcement L clock db announcement_id message expiration_date username
      start_date = (Inr updated, db')"
  shows "\<exists>obj_id stored.
      ObjectId L announcement_id = Some obj_id \<and>
      find_one (announcements_collection db') (Q_id obj_id) = Some stored \<and>
      updated = id_to_str L stored \<and>
      get stored ''start_date'' = provided start_date"
  using assms unfolding update_announcement_def Let_def
  by (auto simp: find_one_update_one_id get_def update_conv' delete_conv'
      split: option.splits sum.splits bool.splits if_splits)

lemma create_announcement_empty_start:
  "fst (create_announcement L clock clock' new_id db message expiration_date username (Some []))
     \<noteq> Inl InvalidFormat_start"
  unfolding create_announcement_def Let_def
  by (simp add: datetime_le_utcnow InvalidFormat_start_def split: option.splits bool.splits)

lemma update_announcement_empty_start:
  "fst (update_announcement L clock db announcement_id message expiration_date username
      (Some [])) \<noteq> Inl InvalidFormat_start"
  unfolding update_announcement_def Let_def
  by (simp add: datetime_le_utcnow InvalidFormat_start_def find_one_update_one_id
      split: option.splits bool.splits)

text \<open>
  C10. An empty \<open>start_date\<close> is handled as an absent one: create and update called with
  the empty string return what they return without a start date, and never the start-date
  InvalidFormat. When such a create succeeds, the record returned and the record inserted
  have no \<open>start_date\<close> field; when such an update succeeds, the record stored under the id
  and returned has no \<open>start_date\<close> field.
\<close>

theorem empty_start_date_is_absent:
  "create_announcement L clock clock' new_id db message expiration_date username (Some [])
     = create_announcement L clock clock' new_id db message expiration_date username None \<and>
   update_announcement L clock db announcement_id message expiration_date username (Some [])
     = update_announcement L clock db announcement_id message expiration_date username None \<and>
   fst (create_announcement L clock clock' new_id db message expiration_date username (Some []))
     \<noteq> Inl InvalidFormat_start \<and>
   fst (update_announcement L clock db announcement_id message expiration_date username
     (Some [])) \<noteq> Inl InvalidFormat_start \<and>
   (\<forall>created db'.
      create_announcement L clock clock' new_id db message expiration_date username (Some [])
        = (Inr created, db') \<longrightarrow>
      get created ''start_date'' = None \<and>
      (\<exists>stored \<in> set (announcements_collection db').
         doc_id stored = new_id \<and> doc_fields stored = doc_fields created)) \<and>
   (\<forall>updated db'.
      update_announcement L clock db announcement_id message expiration_date username (Some [])
        = (Inr updated, db') \<longrightarrow>
      get updated ''start_date'' = None \<and>
      (\<exists>obj_id stored. ObjectId L announcement_id = Some obj_id \<and>
         find_one (announcements_collection db') (Q_id obj_id) = Some stored \<and>
         updated = id_to_str L stored))"
proof (intro conjI allI impI)
  have empty: "provided (Some []) = provided None" by simp
  show "create_announcement L clock clock' new_id db message expiration_date username (Some [])
     = create_announcement L clock clock' new_id db message expiration_date username None"
    unfolding create_announcement_def empty by (rule refl)
  show "update_announcement L clock db announcement_id message expiration_date username
      (Some [])
     = update_announcement L clock db announcement_id message expiration_date username None"
    unfolding update_announcement_def empty by (rule refl)
  show "fst (create_announcement L clock clock' new_id db message expiration_date username
      (Some [])) \<noteq> Inl InvalidFormat_start"
    by (rule create_announcement_empty_start)
  show "fst (update_announcement L clock db announcement_id message expiration_date username
     (Some [])) \<noteq> Inl InvalidFormat_start"
    by (rule update_announcement_empty_start)
next
  fix created db'
  assume "create_announcement L clock clock' new_id db message expiration_date username
      (Some []) = (Inr created, db')"
  from create_announcement_InrD [OF this] obtain announcement where
    c: "created = \<lparr>doc_id = str L new_id, doc_fields = announcement\<rparr>"
    and d: "db' = db\<lparr>announcements_collection :=
              announcements_collection db @ [\<lparr>doc_id = new_id, doc_fields = announcement\<rparr>]\<rparr>"
    and s: "map_of announcement ''start_date'' = provided (Some [])"
    by (elim exE conjE)
  show "get created ''start_date'' = None"
    using c s by (simp add: get_def)
  have "\<lparr>doc_id = new_id, doc_fields = announcement\<rparr> \<in> set (announcements_collection db')"
    using d by simp
  then show "\<exists>stored \<in> set (announcements_collection db').
      doc_id stored = new_id \<and> doc_fields stored = doc_fields created"
    using c by (intro bexI [of _ "\<lparr>doc_id = new_id, doc_fields = announcement\<rparr>"]) simp_all
next
  fix updated db'
  assume "update_announcement L clock db announcement_id message expiration_date username
      (Some []) = (Inr updated, db')"
  from update_announcement_InrD [OF this] obtain obj_id stored where
    u: "ObjectId L announcement_id = Some obj_id"
      "find_one (announcements_collection db') (Q_id obj_id) = Some stored"
      "updated = id_to_str L stored"
    and s: "get stored ''start_date'' = provided (Some [])"
    by (elim exE conjE)
  show "get updated ''start_date'' = None"
    using u(3) s by (simp add: get_id_to_str)
  show "\<exists>obj_id stored. ObjectId L announcement_id = Some obj_id \<and>
      find_one (announcements_collection db') (Q_id obj_id) = Some stored \<and>
      updated = id_to_str L stored"
    using u by (intro exI conjI)
qed

theorem empty_start_date_is_absent_witness:
  "(\<exists>created db'.
      create_announcement example_library 63871286400000000 63871286400000001
          ''64b7f0c2a1d3e4f5a6b7c8db'' example_db ''Bake sale'' ''2025-01-01T00:00:01''
          ''mrodriguez'' (Some []) = (Inr created, db') \<and>
      get created ''start_date'' = None \<and>
      (\<exists>stored \<in> set (announcements_collection db').
         doc_id stored = ''64b7f0c2a1d3e4f5a6b7c8db'' \<and>
         doc_fields stored = doc_fields created)) \<and>
   (\<exists>updated db'.
      update_announcement example_library 63871286400000000 example_db
          ''64b7f0c2a1d3e4f5a6b7c8d9'' ''Science fair moved'' ''2025-01-01T00:00:01''
          ''mrodriguez'' (Some []) = (Inr updated, db') \<and>
      get updated ''start_date'' = None)"
proof -
  have present: "''mrodriguez'' \<in> doc_id ` set (teachers_collection example_db)"
    by (simp add: example_db_def)
  from find_one_id_Some [OF present] obtain teacher where
    t: "find_one (teachers_collection example_db) (Q_id ''mrodriguez'') = Some teacher"
    by (elim exE)
  have oid: "ObjectId example_library ''64b7f0c2a1d3e4f5a6b7c8d9''
      = Some ''64b7f0c2a1d3e4f5a6b7c8d9''"
    by (simp add: example_library_def)
  have ex: "find_one (announcements_collection example_db) (Q_id ''64b7f0c2a1d3e4f5a6b7c8d9'')
     = Some science_fair"
    by (simp add: example_db_def science_fair_def summer_break_def)
  have later: "fromisoformat example_library (replace_Z ''2025-01-01T00:00:01'')
     = Some \<lparr>timestamp = 63871286401000000, tzinfo = None\<rparr>"
    by (simp add: example_library_def replace_Z_def)
  from create_announcement_ok [OF t later _ _ _ refl, where start_date = "Some []"
      and clock = 63871286400000000]
  obtain created db1 where c: "create_announcement example_library 63871286400000000
      63871286400000001 ''64b7f0c2a1d3e4f5a6b7c8db'' example_db ''Bake sale''
      ''2025-01-01T00:00:01'' ''mrodriguez'' (Some []) = (Inr created, db1)"
    by simp
  from update_announcement_ok [OF t oid ex later _ _ _ refl refl, where start_date = "Some []"
      and clock = 63871286400000000]
  obtain updated db2 where u: "update_announcement example_library 63871286400000000
      example_db ''64b7f0c2a1d3e4f5a6b7c8d9'' ''Science fair moved'' ''2025-01-01T00:00:01''
      ''mrodriguez'' (Some []) = (Inr updated, db2)"
    by simp
  note claim = empty_start_date_is_absent [where L = example_library
      and clock = 63871286400000000 and clock' = 63871286400000001
      and new_id = "''64b7f0c2a1d3e4f5a6b7c8db''" and db = example_db
      and expiration_date = "''2025-01-01T00:00:01''" and username = "''mrodriguez''"
      and announcement_id = "''64b7f0c2a1d3e4f5a6b7c8d9''"]
  from claim [where message = "''Bake sale''"] c
  have 1: "get created ''start_date'' = None \<and>
      (\<exists>stored \<in> set (announcements_collection db1).
         doc_id stored = ''64b7f0c2a1d3e4f5a6b7c8db'' \<and>
         doc_fields stored = doc_fields created)"
    by blast
  from claim [where message = "''Science fair moved''"] u
  have 2: "get updated ''start_date'' = None"
    by blast
  from c 1 u 2 show ?thesis by blast
qed

subsection \<open>Order of the listings and read-back\<close>

lemma sort_descending_rendered:
  assumes "sort_descending f found ds"
  shows "sorted_wrt (\<lambda>a b. get b f \<le> get a f) (map (id_to_str L) ds)"
  using assms by (simp add: sort_descending_def sorted_wrt_map get_id_to_str)

lemma sort_descending_tie:
  assumes "get a f = get b f"
  shows "sort_descending f [a, b] [a, b]" and "sort_descending f [a, b] [b, a]"
  using assms by (simp_all add: sort_descending_def)

text \<open>
  C8. Every sequence returned by list-active and by list-all is sorted by \<open>created_at\<close>,
  largest first. Among records with the same \<open>created_at\<close> no order is fixed: when two
  such records are the ones listed, both orders are sequences the endpoint may return.
\<close>

theorem listings_sorted_by_created_at:
  "(get_active_announcements L clock db out \<longrightarrow>
      sorted_wrt (\<lambda>a b. get b ''created_at'' \<le> get a ''created_at'') out) \<and>
   (get_all_announcements L db username (Inr out) \<longrightarrow>
      sorted_wrt (\<lambda>a b. get b ''created_at'' \<le> get a ''created_at'') out) \<and>
   (announcements_collection db = [a, b] \<and> get a ''created_at'' = get b ''created_at'' \<longrightarrow>
      (username \<in> doc_id ` set (teachers_collection db) \<longrightarrow>
         get_all_announcements L db username (Inr [id_to_str L a, id_to_str L b]) \<and>
         get_all_announcements L db username (Inr [id_to_str L b, id_to_str L a])) \<and>
      (matches (active_query (current_time L clock)) a \<and>
       matches (active_query (current_time L clock)) b \<longrightarrow>
         get_active_announcements L clock db [id_to_str L a, id_to_str L b] \<and>
         get_active_announcements L clock db [id_to_str L b, id_to_str L a]))"
proof (intro conjI impI)
  show "sorted_wrt (\<lambda>a b. get b ''created_at'' \<le> get a ''created_at'') out"
    if "get_active_announcements L clock db out"
    using that by (auto elim!: get_active_announcements.cases intro: sort_descending_rendered)
  show "sorted_wrt (\<lambda>a b. get b ''created_at'' \<le> get a ''created_at'') out"
    if "get_all_announcements L db username (Inr out)"
    using that by (auto elim!: get_all_announcements.cases intro: sort_descending_rendered)
next
  assume tie: "announcements_collection db = [a, b] \<and>
    get a ''created_at'' = get b ''created_at''"
  assume "username \<in> doc_id ` set (teachers_collection db)"
  from find_one_id_Some [OF this] obtain teacher where
    t: "find_one (teachers_collection db) (Q_id username) = Some teacher"
    by (elim exE)
  have found: "find (announcements_collection db) Q_all = [a, b]"
    using tie by (simp add: find_def)
  from tie have eq: "get a ''created_at'' = get b ''created_at''" by simp
  show "get_all_announcements L db username (Inr [id_to_str L a, id_to_str L b])"
    using all_found [OF t, of "[a, b]" L] sort_descending_tie(1) [OF eq] found by simp
  show "get_all_announcements L db username (Inr [id_to_str L b, id_to_str L a])"
    using all_found [OF t, of "[b, a]" L] sort_descending_tie(2) [OF eq] found by simp
next
  assume tie: "announcements_collection db = [a, b] \<and>
    get a ''created_at'' = get b ''created_at''"
  assume act: "matches (active_query (current_time L clock)) a \<and>
       matches (active_query (current_time L clock)) b"
  have found: "find (announcements_collection db) (active_query (current_time L clock)) = [a, b]"
    using tie act by (simp add: find_def)
  from tie have eq: "get a ''created_at'' = get b ''created_at''" by simp
  show "get_active_announcements L clock db [id_to_str L a, id_to_str L b]"
    using active_found [of db L clock "[a, b]"] sort_descending_tie(1) [OF eq] found by simp
  show "get_active_announcements L clock db [id_to_str L b, id_to_str L a]"
    using active_found [of db L clock "[b, a]"] sort_descending_tie(2) [OF eq] found by simp
qed

theorem listings_sorted_by_created_at_witness:
  "get_active_announcements example_library 63871286400000000 example_db [science_fair] \<and>
   sorted_wrt (\<lambda>a b. get b ''created_at'' \<le> get a ''created_at'') [science_fair] \<and>
   get_all_announcements example_library example_db ''mrodriguez''
     (Inr [science_fair, summer_break]) \<and>
   sorted_wrt (\<lambda>a b. get b ''created_at'' \<le> get a ''created_at'')
     [science_fair, summer_break] \<and>
   get_all_announcements example_library
     (example_db\<lparr>announcements_collection :=
        [science_fair, science_fair\<lparr>doc_id := ''64b7f0c2a1d3e4f5a6b7c8dc''\<rparr>]\<rparr>) ''mrodriguez''
     (Inr [science_fair, science_fair\<lparr>doc_id := ''64b7f0c2a1d3e4f5a6b7c8dc''\<rparr>]) \<and>
   get_all_announcements example_library
     (example_db\<lparr>announcements_collection :=
        [science_fair, science_fair\<lparr>doc_id := ''64b7f0c2a1d3e4f5a6b7c8dc''\<rparr>]\<rparr>) ''mrodriguez''
     (Inr [science_fair\<lparr>doc_id := ''64b7f0c2a1d3e4f5a6b7c8dc''\<rparr>, science_fair])"
proof -
  have same: "id_to_str example_library d = d" for d
    by (simp add: id_to_str_def example_library_def)
  have present: "''mrodriguez'' \<in> doc_id ` set (teachers_collection example_db)"
    by (simp add: example_db_def)
  from find_one_id_Some [OF present] obtain teacher where
    t: "find_one (teachers_collection example_db) (Q_id ''mrodriguez'') = Some teacher"
    by (elim exE)
  have "sort_descending ''created_at'' (find (announcements_collection example_db) Q_all)
      [science_fair, summer_break]"
    by (simp add: sort_descending_def find_def example_db_def science_fair_def
        summer_break_def get_def)
  from all_found [OF t this, of example_library]
  have all: "get_all_announcements example_library example_db ''mrodriguez''
     (Inr [science_fair, summer_break])"
    by (simp add: same)
  let ?twin = "science_fair\<lparr>doc_id := ''64b7f0c2a1d3e4f5a6b7c8dc''\<rparr>"
  let ?db = "example_db\<lparr>announcements_collection := [science_fair, ?twin]\<rparr>"
  have tie: "announcements_collection ?db = [science_fair, ?twin] \<and>
      get science_fair ''created_at'' = get ?twin ''created_at''"
    by (simp add: get_def)
  have present': "''mrodriguez'' \<in> doc_id ` set (teachers_collection ?db)"
    using present by simp
  from listings_sorted_by_created_at [where L = example_library
      and clock = 63871286400000000 and db = example_db and out = "[science_fair]"]
    example_active
  have 1: "sorted_wrt (\<lambda>a b. get b ''created_at'' \<le> get a ''created_at'') [science_fair]"
    by blast
  from listings_sorted_by_created_at [where L = example_library and db = example_db
      and username = "''mrodriguez''" and out = "[science_fair, summer_break]"] all
  have 2: "sorted_wrt (\<lambda>a b. get b ''created_at'' \<le> get a ''created_at'')
     [science_fair, summer_break]"
    by blast
  from listings_sorted_by_created_at [where L = example_library and db = ?db
      and username = "''mrodriguez''" and a = science_fair and b = ?twin] tie present'
  have 3: "get_all_announcements example_library ?db ''mrodriguez''
        (Inr [id_to_str example_library science_fair, id_to_str example_library ?twin]) \<and>
      get_all_announcements example_library ?db ''mrodriguez''
        (Inr [id_to_str example_library ?twin, id_to_str example_library science_fair])"
    by blast
  from example_active 1 all 2 3 show ?thesis by (simp add: same)
qed

text \<open>
  C9. After a successful create with message \<open>M\<close> and expiration date \<open>T\<close>, every response of
  list-all to a username of the teachers collection is a sequence that contains the created
  record: its \<open>message\<close> is \<open>M\<close>, its \<open>expiration_date\<close> is \<open>T\<close> and its id is the new ObjectId
  rendered as a string.
\<close>

theorem create_then_list_all:
  assumes "create_announcement L clock clock' new_id db message expiration_date username
      start_date = (Inr created, db')"
    and "reader \<in> doc_id ` set (teachers_collection db')"
    and "get_all_announcements L db' reader res"
  shows "\<exists>out. res = Inr out \<and> created \<in> set out \<and>
      doc_id created = str L new_id \<and>
      get created ''message'' = Some message \<and>
      get created ''expiration_date'' = Some expiration_date"
proof -
  from create_announcement_InrD [OF assms(1)] obtain announcement where
    c: "created = \<lparr>doc_id = str L new_id, doc_fields = announcement\<rparr>"
    and d: "db' = db\<lparr>announcements_collection :=
              announcements_collection db @ [\<lparr>doc_id = new_id, doc_fields = announcement\<rparr>]\<rparr>"
    and m: "map_of announcement ''message'' = Some message"
    and e: "map_of announcement ''expiration_date'' = Some expiration_date"
    by (elim exE conjE)
  from find_one_id_Some [OF assms(2)] obtain teacher where
    t: "find_one (teachers_collection db') (Q_id reader) = Some teacher"
    by (elim exE)
  from assms(3) t obtain ds where
    srt: "sort_descending ''created_at'' (find (announcements_collection db') Q_all) ds"
    and res: "res = Inr (map (id_to_str L) ds)"
    by (auto elim: get_all_announcements.cases)
  have "\<lparr>doc_id = new_id, doc_fields = announcement\<rparr> \<in> set ds"
    using sort_descending_set [OF srt] d by (simp add: find_def)
  then have "id_to_str L \<lparr>doc_id = new_id, doc_fields = announcement\<rparr>
      \<in> set (map (id_to_str L) ds)"
    by simp
  then have "created \<in> set (map (id_to_str L) ds)"
    using c by (simp add: id_to_str_def)
  moreover have "doc_id created = str L new_id" "get created ''message'' = Some message"
    "get created ''expiration_date'' = Some expiration_date"
    using c m e by (simp_all add: get_def)
  ultimately show ?thesis using res by (intro exI [of _ "map (id_to_str L) ds"] conjI)
qed


theorem create_then_list_all_witness:
  "\<exists>created db' res.
     create_announcement example_library 63871286400000000 63871286400000001
         ''64b7f0c2a1d3e4f5a6b7c8db'' example_db ''Bake sale'' ''2025-01-01T00:00:01''
         ''mrodriguez'' None = (Inr created, db') \<and>
     ''mrodriguez'' \<in> doc_id ` set (teachers_collection db') \<and>
     get_all_announcements example_library db' ''mrodriguez'' res \<and>
     (\<exists>out. res = Inr out \<and> created \<in> set out \<and>
        doc_id created = ''64b7f0c2a1d3e4f5a6b7c8db'' \<and>
        get created ''message'' = Some ''Bake sale'' \<and>
        get created ''expiration_date'' = Some ''2025-01-01T00:00:01'')"
proof -
  have present: "''mrodriguez'' \<in> doc_id ` set (teachers_collection example_db)"
    by (simp add: example_db_def)
  from find_one_id_Some [OF present] obtain teacher where
    t: "find_one (teachers_collection example_db) (Q_id ''mrodriguez'') = Some teacher"
    by (elim exE)
  have later: "fromisoformat example_library (replace_Z ''2025-01-01T00:00:01'')
     = Some \<lparr>timestamp = 63871286401000000, tzinfo = None\<rparr>"
    by (simp add: example_library_def replace_Z_def)
  have str: "str example_library ''64b7f0c2a1d3e4f5a6b7c8db'' = ''64b7f0c2a1d3e4f5a6b7c8db''"
    by (simp add: example_library_def)
  from create_announcement_ok [OF t later _ _ _ refl, where start_date = None
      and clock = 63871286400000000]
  obtain created db1 where c: "create_announcement example_library 63871286400000000
      63871286400000001 ''64b7f0c2a1d3e4f5a6b7c8db'' example_db ''Bake sale''
      ''2025-01-01T00:00:01'' ''mrodriguez'' None = (Inr created, db1)"
    and same: "teachers_collection db1 = teachers_collection example_db"
    by simp
  have reader: "''mrodriguez'' \<in> doc_id ` set (teachers_collection db1)"
    using present same by simp
  from get_all_announcements_returns obtain res where
    r: "get_all_announcements example_library db1 ''mrodriguez'' res"
    by blast
  from create_then_list_all [OF c reader r]
  have "\<exists>out. res = Inr out \<and> created \<in> set out \<and>
        doc_id created = ''64b7f0c2a1d3e4f5a6b7c8db'' \<and>
        get created ''message'' = Some ''Bake sale'' \<and>
        get created ''expiration_date'' = Some ''2025-01-01T00:00:01''"
    by (simp add: str)
  with c reader r show ?thesis by blast
qed

end
